theory Spec2Isabelle
  imports Complex_Main
begin

section \<open>Python values\<close>

text \<open>
  The module \<^verbatim>\<open>app.py\<close> declares two pydantic models, a dependency function, a service
  class with its provider and eight route handlers. Every function of the module is
  embedded as a function that takes the heap of live objects and returns an outcome
  (an exception raised, \<open>Inl\<close>, or a value returned, \<open>Inr\<close>) with the heap it leaves.

  A Python \<^verbatim>\<open>float\<close> is modelled by the real number its literal denotes: no handler
  computes with a float, they only carry it from the input to the output. Non-finite
  floats are outside the model. A Python \<^verbatim>\<open>int\<close> is unbounded, hence \<open>int\<close>.
\<close>

datatype HTTPException = HTTPException (status_code: int) (detail: string)

text \<open>\<^verbatim>\<open>class Item(BaseModel)\<close>: two required fields, two optional ones.\<close>

record Item =
  name :: string
  description :: "string option"
  price :: real
  tax :: "real option"

text \<open>
  \<^verbatim>\<open>class ItemResponse(BaseModel)\<close> has the same four fields; it is a class of its own,
  so a type of its own (the field names carry a prefix, as a record cannot reuse them).
\<close>

record ItemResponse =
  resp_name :: string
  resp_description :: "string option"
  resp_price :: real
  resp_tax :: "real option"

text \<open>The values handlers return: \<^verbatim>\<open>None\<close>, strings, numbers, models and dict literals.\<close>

datatype pyval =
    PNone
  | PStr string
  | PInt int
  | PFloat real
  | PItem Item
  | PDict "(string \<times> pyval) list"

subsection \<open>Formatting\<close>

text \<open>
  \<^verbatim>\<open>str(n)\<close> for an integer: the decimal digits, most significant first, after a minus
  sign when negative. An f-string field \<^verbatim>\<open>{x}\<close> inserts \<^verbatim>\<open>format(x)\<close>, which is
  \<^verbatim>\<open>str(x)\<close> for an int, the string itself for a str and \<^verbatim>\<open>None\<close> for None.
\<close>

definition digit_char :: "nat \<Rightarrow> char" where
  "digit_char d = ''0123456789'' ! d"

function str_nat :: "nat \<Rightarrow> string" where
  "str_nat n = (if n < 10 then [digit_char n] else str_nat (n div 10) @ [digit_char (n mod 10)])"
  by pat_completeness auto
termination
  by (relation "measure id") auto

declare str_nat.simps [simp del]

definition str_int :: "int \<Rightarrow> string" where
  "str_int i = (if i < 0 then CHR ''-'' # str_nat (nat (- i)) else str_nat (nat i))"

fun format_optional_str :: "string option \<Rightarrow> string" where
  "format_optional_str None = ''None''"
| "format_optional_str (Some s) = s"

text \<open>Reading a decimal numeral back, to say what "decimal rendering" means.\<close>

definition digit_val :: "char \<Rightarrow> nat option" where
  "digit_val c = (if c \<in> set ''0123456789'' then Some (nat (of_char c - 48)) else None)"

fun nat_of_digits :: "nat \<Rightarrow> string \<Rightarrow> nat option" where
  "nat_of_digits acc [] = Some acc"
| "nat_of_digits acc (c # cs) =
     (case digit_val c of None \<Rightarrow> None | Some d \<Rightarrow> nat_of_digits (10 * acc + d) cs)"

fun int_of_str :: "string \<Rightarrow> int option" where
  "int_of_str [] = None"
| "int_of_str (c # cs) =
     (if c = CHR ''-''
      then (if cs = [] then None else map_option (\<lambda>n. - int n) (nat_of_digits 0 cs))
      else map_option int (nat_of_digits 0 (c # cs)))"

section \<open>The heap and outcomes\<close>

text \<open>
  \<^verbatim>\<open>class ItemService\<close> has one attribute, the dict \<^verbatim>\<open>items\<close>. Objects live in a heap:
  a counter of the next free address and the object at each address. The heaps the
  theorems quantify over are arbitrary, so whatever earlier requests left behind is
  covered.
\<close>

record ItemService =
  items :: "string \<rightharpoonup> string"

record heap =
  next_ref :: nat
  objects :: "nat \<Rightarrow> ItemService"

type_synonym 'a outcome = "(HTTPException + 'a) \<times> heap"

text \<open>Sequencing two calls: an exception raised by the first skips the second.\<close>

definition bind_call :: "(heap \<Rightarrow> 'a outcome) \<Rightarrow> ('a \<Rightarrow> heap \<Rightarrow> 'b outcome) \<Rightarrow> heap \<Rightarrow> 'b outcome" where
  "bind_call m f h = (case m h of (Inl e, h') \<Rightarrow> (Inl e, h') | (Inr x, h') \<Rightarrow> f x h')"

text \<open>\<^verbatim>\<open>d.get(k, dflt)\<close> on a dict: the value at the key, the second argument when the key is absent.\<close>

definition dict_get :: "('k \<rightharpoonup> 'v) \<Rightarrow> 'k \<Rightarrow> 'v \<Rightarrow> 'v" where
  "dict_get d k dflt = (case d k of None \<Rightarrow> dflt | Some v \<Rightarrow> v)"

section \<open>The functions of app.py\<close>

definition get_query_param :: "string option \<Rightarrow> heap \<Rightarrow> (string option) outcome" where
  "get_query_param q h = (Inr q, h)"

definition hello :: "string option \<Rightarrow> heap \<Rightarrow> pyval outcome" where
  "hello q h =
     (Inr (PDict [(''Hello'', PStr (''How are you? Query Parameter: '' @ format_optional_str q))]), h)"

definition read_item :: "int \<Rightarrow> heap \<Rightarrow> pyval outcome" where
  "read_item item_id h = (Inr (PDict [(''item_id'', PInt item_id)]), h)"

definition create_item :: "Item \<Rightarrow> heap \<Rightarrow> pyval outcome" where
  "create_item item h = (Inr (PDict [(''item'', PItem item)]), h)"

definition update_item :: "int \<Rightarrow> Item \<Rightarrow> heap \<Rightarrow> pyval outcome" where
  "update_item item_id item h = (Inr (PDict [(''item_id'', PInt item_id), (''item'', PItem item)]), h)"

definition delete_item :: "int \<Rightarrow> heap \<Rightarrow> pyval outcome" where
  "delete_item item_id h =
     (Inr (PDict [(''message'', PStr (''Item with ID '' @ str_int item_id @ '' deleted''))]), h)"

definition trigger_error :: "heap \<Rightarrow> pyval outcome" where
  "trigger_error h = (Inl (HTTPException 404 ''This is a custom error''), h)"

definition get_item :: "int \<Rightarrow> heap \<Rightarrow> pyval outcome" where
  "get_item item_id h =
     (let item = PDict [(''name'', PStr ''Sample Item''),
                        (''description'', PStr ''A sample item description''),
                        (''price'', PFloat 19.99),
                        (''tax'', PFloat 1.5)]
      in (Inr item, h))"

text \<open>
  \<^verbatim>\<open>ItemService()\<close>: a new object at the next free address, whose \<^verbatim>\<open>__init__\<close> sets
  \<^verbatim>\<open>self.items\<close> to the dict literal.
\<close>

definition ItemService_items :: "string \<rightharpoonup> string" where
  "ItemService_items = [''1'' \<mapsto> ''Item 1'', ''2'' \<mapsto> ''Item 2'']"

definition ItemService_init :: "heap \<Rightarrow> nat outcome" where
  "ItemService_init h =
     (Inr (next_ref h),
      h\<lparr>next_ref := Suc (next_ref h),
        objects := (objects h)(next_ref h := \<lparr>items = ItemService_items\<rparr>)\<rparr>)"

definition ItemService_get_item :: "nat \<Rightarrow> string \<Rightarrow> heap \<Rightarrow> string outcome" where
  "ItemService_get_item self item_id h =
     (Inr (dict_get (items (objects h self)) item_id ''Item not found''), h)"

definition get_item_service :: "heap \<Rightarrow> nat outcome" where
  "get_item_service h = ItemService_init h"

definition read_item_service :: "string \<Rightarrow> nat \<Rightarrow> heap \<Rightarrow> pyval outcome" where
  "read_item_service item_id service =
     bind_call (ItemService_get_item service item_id) (\<lambda>item h.
       if item = ''Item not found''
       then (Inl (HTTPException 404 ''Item not found''), h)
       else (Inr (PDict [(''item_id'', PStr item_id), (''item'', PStr item)]), h))"

section \<open>Requests and responses\<close>

text \<open>
  What the framework does around a handler, as far as the properties below need it:
  it builds the handler's arguments (a dependency declared with \<^verbatim>\<open>Depends\<close> is called
  first, once per request; a body is made into an \<open>Item\<close>), calls the handler, and
  turns the outcome into a response: status 200 with the returned value encoded as JSON,
  or the status and detail of the \<open>HTTPException\<close> raised.
\<close>

datatype json =
    JNull
  | JStr string
  | JInt int
  | JFloat real
  | JObject "(string \<times> json) list"

fun json_optional :: "('a \<Rightarrow> json) \<Rightarrow> 'a option \<Rightarrow> json" where
  "json_optional f None = JNull"
| "json_optional f (Some x) = f x"

text \<open>A model is encoded as the object of its fields, in the order of the class.\<close>

definition Item_json :: "Item \<Rightarrow> json" where
  "Item_json item =
     JObject [(''name'', JStr (name item)),
              (''description'', json_optional JStr (description item)),
              (''price'', JFloat (price item)),
              (''tax'', json_optional JFloat (tax item))]"

definition ItemResponse_json :: "ItemResponse \<Rightarrow> json" where
  "ItemResponse_json r =
     JObject [(''name'', JStr (resp_name r)),
              (''description'', json_optional JStr (resp_description r)),
              (''price'', JFloat (resp_price r)),
              (''tax'', json_optional JFloat (resp_tax r))]"

primrec jsonable_encoder :: "pyval \<Rightarrow> json" where
  "jsonable_encoder PNone = JNull"
| "jsonable_encoder (PStr s) = JStr s"
| "jsonable_encoder (PInt i) = JInt i"
| "jsonable_encoder (PFloat x) = JFloat x"
| "jsonable_encoder (PItem item) = Item_json item"
| "jsonable_encoder (PDict kvs) = JObject (map (map_prod id jsonable_encoder) kvs)"

text \<open>
  A request body after parsing: each field of \<open>Item\<close> is absent or given, an optional
  one possibly given as null. The two fields the class declares without a default are
  required; the two declared \<^verbatim>\<open>= None\<close> default to \<open>None\<close>.
\<close>

datatype 'a field = Absent | Given 'a

fun field_default :: "'a \<Rightarrow> 'a field \<Rightarrow> 'a" where
  "field_default d Absent = d"
| "field_default d (Given x) = x"

record ItemBody =
  body_name :: "string field"
  body_description :: "string option field"
  body_price :: "real field"
  body_tax :: "real option field"

definition Item_validate :: "ItemBody \<Rightarrow> Item option" where
  "Item_validate b =
     (case (body_name b, body_price b) of
        (Given n, Given p) \<Rightarrow>
          Some \<lparr>name = n, description = field_default None (body_description b),
                price = p, tax = field_default None (body_tax b)\<rparr>
      | _ \<Rightarrow> None)"

text \<open>
  \<^verbatim>\<open>response_model=ItemResponse\<close>: the dict a handler returns is read as an
  \<open>ItemResponse\<close>, with the same required fields and defaults.
\<close>

fun as_str :: "pyval \<Rightarrow> string option" where
  "as_str (PStr s) = Some s"
| "as_str _ = None"

fun as_float :: "pyval \<Rightarrow> real option" where
  "as_float (PFloat x) = Some x"
| "as_float (PInt i) = Some (of_int i)"
| "as_float _ = None"

fun as_optional :: "(pyval \<Rightarrow> 'a option) \<Rightarrow> pyval option \<Rightarrow> 'a option option" where
  "as_optional f None = Some None"
| "as_optional f (Some PNone) = Some None"
| "as_optional f (Some v) = map_option Some (f v)"

fun ItemResponse_validate :: "pyval \<Rightarrow> ItemResponse option" where
  "ItemResponse_validate (PDict kvs) =
     (case (Option.bind (map_of kvs ''name'') as_str,
            as_optional as_str (map_of kvs ''description''),
            Option.bind (map_of kvs ''price'') as_float,
            as_optional as_float (map_of kvs ''tax'')) of
        (Some n, Some d, Some p, Some t) \<Rightarrow>
          Some \<lparr>resp_name = n, resp_description = d, resp_price = p, resp_tax = t\<rparr>
      | _ \<Rightarrow> None)"
| "ItemResponse_validate _ = None"

datatype response = Response (status: int) (content: json)

definition error_response :: "HTTPException \<Rightarrow> response" where
  "error_response e = Response (status_code e) (JObject [(''detail'', JStr (detail e))])"

fun respond :: "HTTPException + pyval \<Rightarrow> response" where
  "respond (Inl e) = error_response e"
| "respond (Inr v) = Response 200 (jsonable_encoder v)"

fun respond_model :: "HTTPException + pyval \<Rightarrow> response" where
  "respond_model (Inl e) = error_response e"
| "respond_model (Inr v) =
     (case ItemResponse_validate v of
        Some r \<Rightarrow> Response 200 (ItemResponse_json r)
      | None \<Rightarrow> Response 500 (JStr ''Internal Server Error''))"

definition validation_error :: response where
  "validation_error = Response 422 (JObject [(''detail'', JStr ''validation error'')])"

text \<open>The eight routes, each with its validated input.\<close>

datatype request =
    GET_hello "string option"
  | GET_items int
  | POST_items ItemBody
  | PUT_items int ItemBody
  | DELETE_items int
  | GET_error
  | GET_item int
  | GET_service_item string

text \<open>A handler as the framework calls it: its dependencies first, then the handler.\<close>

definition call_hello :: "string option \<Rightarrow> heap \<Rightarrow> pyval outcome" where
  "call_hello q = bind_call (get_query_param q) hello"

definition call_read_item_service :: "string \<Rightarrow> heap \<Rightarrow> pyval outcome" where
  "call_read_item_service item_id = bind_call get_item_service (read_item_service item_id)"

definition finish :: "(HTTPException + pyval \<Rightarrow> response) \<Rightarrow> pyval outcome \<Rightarrow> response \<times> heap" where
  "finish f r = (f (fst r), snd r)"

fun dispatch :: "request \<Rightarrow> heap \<Rightarrow> response \<times> heap" where
  "dispatch (GET_hello q) h = finish respond (call_hello q h)"
| "dispatch (GET_items i) h = finish respond (read_item i h)"
| "dispatch (POST_items b) h =
     (case Item_validate b of
        None \<Rightarrow> (validation_error, h)
      | Some item \<Rightarrow> finish respond (create_item item h))"
| "dispatch (PUT_items i b) h =
     (case Item_validate b of
        None \<Rightarrow> (validation_error, h)
      | Some item \<Rightarrow> finish respond (update_item i item h))"
| "dispatch (DELETE_items i) h = finish respond (delete_item i h)"
| "dispatch GET_error h = finish respond (trigger_error h)"
| "dispatch (GET_item i) h = finish respond_model (get_item i h)"
| "dispatch (GET_service_item s) h = finish respond (call_read_item_service s h)"

text \<open>A run of the server: the requests in order, each on the heap the last one left.\<close>

fun serve :: "request list \<Rightarrow> heap \<Rightarrow> response list \<times> heap" where
  "serve [] h = ([], h)"
| "serve (r # rs) h =
     (case dispatch r h of (resp, h') \<Rightarrow>
        (case serve rs h' of (resps, h'') \<Rightarrow> (resp # resps, h'')))"

section \<open>Lemmas on formatting and on the service\<close>

text \<open>A numeral printed by \<open>str_int\<close> reads back as the integer it was printed from.\<close>


lemma digit_char_val: "d < 10 \<Longrightarrow> digit_val (digit_char d) = Some d"
proof -
  assume "d < 10"
  then have "d \<in> {0, 1, 2, 3, 4, 5, 6, 7, 8, 9}" by auto
  then show ?thesis by (auto simp: digit_val_def digit_char_def)
qed

lemma digit_char_not_minus: "d < 10 \<Longrightarrow> digit_char d \<noteq> CHR ''-''"
proof -
  assume "d < 10"
  then have "d \<in> {0, 1, 2, 3, 4, 5, 6, 7, 8, 9}" by auto
  then show ?thesis by (auto simp: digit_char_def)
qed

lemma nat_of_digits_snoc:
  "nat_of_digits acc (xs @ [c]) =
     (case nat_of_digits acc xs of
        None \<Rightarrow> None
      | Some a \<Rightarrow> (case digit_val c of None \<Rightarrow> None | Some d \<Rightarrow> Some (10 * a + d)))"
  by (induction xs arbitrary: acc) (auto split: option.splits)

lemma nat_of_digits_str_nat: "nat_of_digits 0 (str_nat n) = Some n"
proof (induction n rule: str_nat.induct)
  case (1 n)
  show ?case
  proof (cases "n < 10")
    case True
    then show ?thesis by (subst str_nat.simps) (simp add: digit_char_val)
  next
    case False
    with 1 have ih: "nat_of_digits 0 (str_nat (n div 10)) = Some (n div 10)" by simp
    have "n mod 10 < 10" by simp
    then have dv: "digit_val (digit_char (n mod 10)) = Some (n mod 10)" by (rule digit_char_val)
    from False show ?thesis
      by (subst str_nat.simps) (simp add: nat_of_digits_snoc ih dv)
  qed
qed

lemma str_nat_first: "\<exists>c cs. str_nat n = c # cs \<and> c \<noteq> CHR ''-''"
proof (induction n rule: str_nat.induct)
  case (1 n)
  show ?case
  proof (cases "n < 10")
    case True
    then show ?thesis by (subst str_nat.simps) (simp add: digit_char_not_minus)
  next
    case False
    with 1 obtain c cs where "str_nat (n div 10) = c # cs" "c \<noteq> CHR ''-''" by auto
    with False show ?thesis by (subst str_nat.simps) simp
  qed
qed

lemma int_of_str_str_nat: "int_of_str (str_nat n) = Some (int n)"
proof -
  obtain c cs where eq: "str_nat n = c # cs" and c: "c \<noteq> CHR ''-''"
    using str_nat_first by blast
  have "nat_of_digits 0 (c # cs) = Some n" using nat_of_digits_str_nat [of n] eq by simp
  then show ?thesis using eq c by simp
qed

lemma int_of_str_str_int: "int_of_str (str_int i) = Some i"
proof (cases "i < 0")
  case True
  obtain c cs where eq: "str_nat (nat (- i)) = c # cs" using str_nat_first by blast
  then have "str_nat (nat (- i)) \<noteq> []" by simp
  with True show ?thesis by (simp add: str_int_def nat_of_digits_str_nat)
next
  case False
  then show ?thesis by (simp add: str_int_def int_of_str_str_nat)
qed


lemma dict_get_ItemService_items:
  "dict_get ItemService_items k ''Item not found'' =
     (if k = ''1'' then ''Item 1'' else if k = ''2'' then ''Item 2'' else ''Item not found'')"
  by (simp add: dict_get_def ItemService_items_def)

lemma get_item_of_fresh_service:
  "bind_call get_item_service (\<lambda>s. ItemService_get_item s k) h =
     (Inr (dict_get ItemService_items k ''Item not found''), snd (get_item_service h))"
  by (simp add: bind_call_def get_item_service_def ItemService_init_def ItemService_get_item_def)

lemma call_read_item_service_fst:
  "fst (call_read_item_service k h) =
     (if k = ''1'' then Inr (PDict [(''item_id'', PStr k), (''item'', PStr ''Item 1'')])
      else if k = ''2'' then Inr (PDict [(''item_id'', PStr k), (''item'', PStr ''Item 2'')])
      else Inl (HTTPException 404 ''Item not found''))"
  by (simp add: call_read_item_service_def read_item_service_def bind_call_def get_item_service_def
      ItemService_init_def ItemService_get_item_def dict_get_ItemService_items)

section \<open>The properties\<close>

text \<open>
  C1. The service-item lookup, called with a service the provider has just built:
  for \<^verbatim>\<open>item_id\<close> a key of the fixed mapping (the keys are \<^verbatim>\<open>"1"\<close> and \<^verbatim>\<open>"2"\<close>, mapped to
  \<^verbatim>\<open>"Item 1"\<close> and \<^verbatim>\<open>"Item 2"\<close>) it returns the dict of \<^verbatim>\<open>item_id\<close> and the mapped
  string; for every other string it raises the \<open>HTTPException\<close> with status 404 and
  detail \<^verbatim>\<open>Item not found\<close>. The response is the same object with status 200, or the
  detail with status 404.
\<close>

theorem read_item_service_lookup:
  "fst (call_read_item_service item_id h) =
     (case ItemService_items item_id of
        Some v \<Rightarrow> Inr (PDict [(''item_id'', PStr item_id), (''item'', PStr v)])
      | None \<Rightarrow> Inl (HTTPException 404 ''Item not found''))
   \<and> dom ItemService_items = {''1'', ''2''}
   \<and> ItemService_items ''1'' = Some ''Item 1''
   \<and> ItemService_items ''2'' = Some ''Item 2''
   \<and> fst (dispatch (GET_service_item item_id) h) =
     (case ItemService_items item_id of
        Some v \<Rightarrow> Response 200 (JObject [(''item_id'', JStr item_id), (''item'', JStr v)])
      | None \<Rightarrow> Response 404 (JObject [(''detail'', JStr ''Item not found'')]))"
proof -
  have d: "dom ItemService_items = {''1'', ''2''}"
    by (auto simp: ItemService_items_def split: if_splits)
  have c: "fst (call_read_item_service item_id h) =
     (case ItemService_items item_id of
        Some v \<Rightarrow> Inr (PDict [(''item_id'', PStr item_id), (''item'', PStr v)])
      | None \<Rightarrow> Inl (HTTPException 404 ''Item not found''))"
    by (simp add: call_read_item_service_fst ItemService_items_def)
  have r: "fst (dispatch (GET_service_item item_id) h) = respond (fst (call_read_item_service item_id h))"
    by (simp add: finish_def)
  show ?thesis
    unfolding r c using d
    by (simp add: ItemService_items_def error_response_def)
qed

theorem read_item_service_lookup_witness:
  "fst (dispatch (GET_service_item ''1'') \<lparr>next_ref = 0, objects = \<lambda>_. \<lparr>items = Map.empty\<rparr>\<rparr>) =
     Response 200 (JObject [(''item_id'', JStr ''1''), (''item'', JStr ''Item 1'')])
   \<and> fst (dispatch (GET_service_item ''99'') \<lparr>next_ref = 0, objects = \<lambda>_. \<lparr>items = Map.empty\<rparr>\<rparr>) =
     Response 404 (JObject [(''detail'', JStr ''Item not found'')])"
  using read_item_service_lookup [of "''1''" "\<lparr>next_ref = 0, objects = \<lambda>_. \<lparr>items = Map.empty\<rparr>\<rparr>"]
    read_item_service_lookup [of "''99''" "\<lparr>next_ref = 0, objects = \<lambda>_. \<lparr>items = Map.empty\<rparr>\<rparr>"]
  by (simp add: ItemService_items_def)

text \<open>
  C2. \<open>create_item\<close> returns the dict of its item. For every body that gives a name and
  a price, the response to \<^verbatim>\<open>POST /items/\<close> is the object whose \<^verbatim>\<open>item\<close> has that name
  and price, and for \<^verbatim>\<open>description\<close> and \<^verbatim>\<open>tax\<close> the value given or, when absent, null.
  The heap is left as it was.
\<close>

theorem create_item_echo:
  "fst (create_item item h) = Inr (PDict [(''item'', PItem item)])
   \<and> dispatch (POST_items \<lparr>body_name = Given n, body_description = d,
                             body_price = Given p, body_tax = t\<rparr>) h =
       (Response 200 (JObject [(''item'',
          JObject [(''name'', JStr n),
                   (''description'', json_optional JStr (field_default None d)),
                   (''price'', JFloat p),
                   (''tax'', json_optional JFloat (field_default None t))])]), h)
   \<and> dispatch (POST_items \<lparr>body_name = Given n, body_description = Absent,
                             body_price = Given p, body_tax = Absent\<rparr>) h =
       (Response 200 (JObject [(''item'',
          JObject [(''name'', JStr n), (''description'', JNull),
                   (''price'', JFloat p), (''tax'', JNull)])]), h)"
  by (simp add: create_item_def Item_validate_def finish_def Item_json_def)

theorem create_item_echo_witness:
  "dispatch (POST_items \<lparr>body_name = Given ''a'', body_description = Absent,
                          body_price = Given 1.0, body_tax = Absent\<rparr>)
            \<lparr>next_ref = 0, objects = \<lambda>_. \<lparr>items = Map.empty\<rparr>\<rparr> =
     (Response 200 (JObject [(''item'',
        JObject [(''name'', JStr ''a''), (''description'', JNull),
                 (''price'', JFloat 1.0), (''tax'', JNull)])]),
      \<lparr>next_ref = 0, objects = \<lambda>_. \<lparr>items = Map.empty\<rparr>\<rparr>)"
  using create_item_echo [of "\<lparr>name = ''a'', description = None, price = 1.0, tax = None\<rparr>"
      "\<lparr>next_ref = 0, objects = \<lambda>_. \<lparr>items = Map.empty\<rparr>\<rparr>" "''a''" Absent "1.0" Absent]
  by simp

text \<open>
  C3. For every integer \<open>i\<close>, \<open>read_item\<close> returns the dict of \<^verbatim>\<open>item_id\<close> and \<open>i\<close>, and
  the response to \<^verbatim>\<open>GET /items/{i}\<close> is that object with status 200.
\<close>

theorem read_item_returns:
  "read_item i h = (Inr (PDict [(''item_id'', PInt i)]), h)
   \<and> dispatch (GET_items i) h = (Response 200 (JObject [(''item_id'', JInt i)]), h)"
  by (simp add: read_item_def finish_def)

text \<open>
  C4. \<open>trigger_error\<close> never returns a value: on every call it raises the
  \<open>HTTPException\<close> with status 404 and detail \<^verbatim>\<open>This is a custom error\<close>, and the response
  to \<^verbatim>\<open>GET /error\<close> carries that status and detail.
\<close>

theorem trigger_error_always_fails:
  "trigger_error h = (Inl (HTTPException 404 ''This is a custom error''), h)
   \<and> (\<forall>v. fst (trigger_error h) \<noteq> Inr v)
   \<and> dispatch GET_error h =
       (Response 404 (JObject [(''detail'', JStr ''This is a custom error'')]), h)"
  by (simp add: trigger_error_def finish_def error_response_def)

text \<open>
  C5. \<open>get_item\<close> is constant in its path parameter: for every integer it returns the
  fixed dict, which passes the response model; the response is the fixed payload, equal
  for any two item ids.
\<close>

theorem get_item_constant:
  "fst (get_item item_id h) =
     Inr (PDict [(''name'', PStr ''Sample Item''),
                 (''description'', PStr ''A sample item description''),
                 (''price'', PFloat 19.99), (''tax'', PFloat 1.5)])
   \<and> fst (get_item item_id h) = fst (get_item item_id' h')
   \<and> fst (dispatch (GET_item item_id) h) =
       Response 200 (JObject [(''name'', JStr ''Sample Item''),
                              (''description'', JStr ''A sample item description''),
                              (''price'', JFloat 19.99), (''tax'', JFloat 1.5)])
   \<and> fst (dispatch (GET_item item_id) h) = fst (dispatch (GET_item item_id') h')"
  by (simp add: get_item_def finish_def ItemResponse_json_def)

theorem get_item_constant_witness:
  "fst (dispatch (GET_item 42) \<lparr>next_ref = 0, objects = \<lambda>_. \<lparr>items = Map.empty\<rparr>\<rparr>) =
     Response 200 (JObject [(''name'', JStr ''Sample Item''),
                            (''description'', JStr ''A sample item description''),
                            (''price'', JFloat 19.99), (''tax'', JFloat 1.5)])"
  using get_item_constant [of 42 "\<lparr>next_ref = 0, objects = \<lambda>_. \<lparr>items = Map.empty\<rparr>\<rparr>" 0 "\<lparr>next_ref = 0, objects = \<lambda>_. \<lparr>items = Map.empty\<rparr>\<rparr>"]
  by blast

text \<open>
  C6. \<open>get_query_param\<close> returns its argument, absent or given, unchanged and leaves the
  heap as it was; so \<open>hello\<close> receives the query parameter of the request.
\<close>

theorem get_query_param_identity:
  "get_query_param q h = (Inr q, h) \<and> call_hello q h = hello q h"
  by (simp add: get_query_param_def call_hello_def bind_call_def)

text \<open>
  C7. For every integer \<^verbatim>\<open>item_id\<close>, \<open>delete_item\<close> returns the dict whose \<^verbatim>\<open>message\<close> is
  \<^verbatim>\<open>Item with ID \<close>, the decimal numeral of \<^verbatim>\<open>item_id\<close> (a numeral that reads back as
  \<^verbatim>\<open>item_id\<close>) and \<^verbatim>\<open> deleted\<close>; the heap is left as it was.
\<close>

theorem delete_item_message:
  "delete_item item_id h =
     (Inr (PDict [(''message'', PStr (''Item with ID '' @ str_int item_id @ '' deleted''))]), h)
   \<and> int_of_str (str_int item_id) = Some item_id
   \<and> dispatch (DELETE_items item_id) h =
       (Response 200 (JObject [(''message'', JStr (''Item with ID '' @ str_int item_id @ '' deleted''))]), h)"
  by (simp add: delete_item_def finish_def int_of_str_str_int)

theorem delete_item_message_witness:
  "dispatch (DELETE_items 42) \<lparr>next_ref = 3, objects = \<lambda>_. \<lparr>items = Map.empty\<rparr>\<rparr> =
     (Response 200 (JObject [(''message'', JStr ''Item with ID 42 deleted'')]),
      \<lparr>next_ref = 3, objects = \<lambda>_. \<lparr>items = Map.empty\<rparr>\<rparr>)
   \<and> fst (dispatch (DELETE_items (- 7)) \<lparr>next_ref = 3, objects = \<lambda>_. \<lparr>items = Map.empty\<rparr>\<rparr>) =
     Response 200 (JObject [(''message'', JStr ''Item with ID -7 deleted'')])"
proof -
  have a: "''Item with ID '' @ str_int 42 @ '' deleted'' = ''Item with ID 42 deleted''"
    by (simp add: str_int_def str_nat.simps digit_char_def)
  have b: "''Item with ID '' @ str_int (- 7) @ '' deleted'' = ''Item with ID -7 deleted''"
    by (simp add: str_int_def str_nat.simps digit_char_def)
  from delete_item_message [of 42 "\<lparr>next_ref = 3, objects = \<lambda>_. \<lparr>items = Map.empty\<rparr>\<rparr>"]
  have c: "dispatch (DELETE_items 42) \<lparr>next_ref = 3, objects = \<lambda>_. \<lparr>items = Map.empty\<rparr>\<rparr> =
     (Response 200 (JObject [(''message'', JStr ''Item with ID 42 deleted'')]),
      \<lparr>next_ref = 3, objects = \<lambda>_. \<lparr>items = Map.empty\<rparr>\<rparr>)"
    unfolding a by blast
  from delete_item_message [of "- 7" "\<lparr>next_ref = 3, objects = \<lambda>_. \<lparr>items = Map.empty\<rparr>\<rparr>"]
  have d: "dispatch (DELETE_items (- 7)) \<lparr>next_ref = 3, objects = \<lambda>_. \<lparr>items = Map.empty\<rparr>\<rparr> =
     (Response 200 (JObject [(''message'', JStr ''Item with ID -7 deleted'')]),
      \<lparr>next_ref = 3, objects = \<lambda>_. \<lparr>items = Map.empty\<rparr>\<rparr>)"
    unfolding b by blast
  show ?thesis unfolding c d by simp
qed

text \<open>
  C8. Every handler is a function of its input alone. Each of the eight handlers leaves
  the heap as it was, and its outcome, a value or an exception, is the same on any two
  heaps: for \<open>read_item_service\<close> given services with equal \<^verbatim>\<open>items\<close>, and so for the
  handler called with the service its provider builds. The response to a request after
  any run of earlier requests is the response to it on any other heap.
\<close>

theorem handlers_deterministic:
  "fst (call_hello q h1) = fst (call_hello q h2)
   \<and> fst (hello q h1) = fst (hello q h2)
   \<and> fst (read_item i h1) = fst (read_item i h2)
   \<and> fst (create_item item h1) = fst (create_item item h2)
   \<and> fst (update_item i item h1) = fst (update_item i item h2)
   \<and> fst (delete_item i h1) = fst (delete_item i h2)
   \<and> fst (trigger_error h1) = fst (trigger_error h2)
   \<and> fst (get_item i h1) = fst (get_item i h2)
   \<and> (items (objects h1 s1) = items (objects h2 s2) \<longrightarrow>
        fst (read_item_service k s1 h1) = fst (read_item_service k s2 h2))
   \<and> fst (call_read_item_service k h1) = fst (call_read_item_service k h2)
   \<and> snd (hello q h1) = h1 \<and> snd (read_item i h1) = h1 \<and> snd (create_item item h1) = h1
   \<and> snd (update_item i item h1) = h1 \<and> snd (delete_item i h1) = h1
   \<and> snd (trigger_error h1) = h1 \<and> snd (get_item i h1) = h1
   \<and> snd (read_item_service k s1 h1) = h1
   \<and> fst (dispatch r (snd (serve rs h1))) = fst (dispatch r h2)"
proof -
  have disp: "fst (dispatch r h) = fst (dispatch r h')" for h h'
  proof (cases r)
    case (GET_service_item k)
    then show ?thesis by (simp add: finish_def call_read_item_service_fst)
  qed (simp_all add: finish_def call_hello_def bind_call_def get_query_param_def hello_def
        read_item_def create_item_def update_item_def delete_item_def trigger_error_def
        get_item_def split: option.splits)
  have svc: "items (objects h1 s1) = items (objects h2 s2) \<longrightarrow>
        fst (read_item_service k s1 h1) = fst (read_item_service k s2 h2)"
    by (simp add: read_item_service_def bind_call_def ItemService_get_item_def)
  have svc_heap: "snd (read_item_service k s1 h1) = h1"
    by (simp add: read_item_service_def bind_call_def ItemService_get_item_def)
  show ?thesis
    using disp [of "snd (serve rs h1)" h2] svc svc_heap
    by (simp add: call_hello_def bind_call_def get_query_param_def hello_def
        read_item_def create_item_def update_item_def delete_item_def trigger_error_def
        get_item_def call_read_item_service_fst)
qed

theorem handlers_deterministic_witness:
  "fst (dispatch (GET_service_item ''2'')
         (snd (serve [GET_service_item ''1'', DELETE_items 2, GET_service_item ''5'']
                \<lparr>next_ref = 0, objects = \<lambda>_. \<lparr>items = Map.empty\<rparr>\<rparr>))) =
     Response 200 (JObject [(''item_id'', JStr ''2''), (''item'', JStr ''Item 2'')])
   \<and> fst (read_item_service ''1'' 0 \<lparr>next_ref = 1, objects = \<lambda>_. \<lparr>items = ItemService_items\<rparr>\<rparr>) =
     fst (read_item_service ''1'' 5
           \<lparr>next_ref = 9, objects = (\<lambda>_. \<lparr>items = Map.empty\<rparr>)(5 := \<lparr>items = ItemService_items\<rparr>)\<rparr>)"
proof -
  have "fst (dispatch (GET_service_item ''2'') \<lparr>next_ref = 0, objects = \<lambda>_. \<lparr>items = Map.empty\<rparr>\<rparr>) =
    Response 200 (JObject [(''item_id'', JStr ''2''), (''item'', JStr ''Item 2'')])"
    by (simp add: finish_def call_read_item_service_fst)
  with handlers_deterministic [of None
      "snd (serve [GET_service_item ''1'', DELETE_items 2, GET_service_item ''5'']
                \<lparr>next_ref = 0, objects = \<lambda>_. \<lparr>items = Map.empty\<rparr>\<rparr>)"
      "\<lparr>next_ref = 0, objects = \<lambda>_. \<lparr>items = Map.empty\<rparr>\<rparr>"
      0 "\<lparr>name = ''a'', description = None, price = 1, tax = None\<rparr>" 0 0 "''2''"
      "GET_service_item ''2''" "[]"]
    handlers_deterministic [of None
      "\<lparr>next_ref = 1, objects = \<lambda>_. \<lparr>items = ItemService_items\<rparr>\<rparr>"
      "\<lparr>next_ref = 9, objects = (\<lambda>_. \<lparr>items = Map.empty\<rparr>)(5 := \<lparr>items = ItemService_items\<rparr>)\<rparr>"
      0 "\<lparr>name = ''a'', description = None, price = 1, tax = None\<rparr>" 0 5 "''1''"
      "GET_service_item ''2''" "[]"]
  show ?thesis by simp
qed

text \<open>
  C9. \<open>ItemService.get_item\<close> returns a string and raises nothing, for every key and
  whatever the object holds, and leaves the heap as it was. On a service the provider has
  just built it returns the string the fixed mapping gives the key, or
  \<^verbatim>\<open>Item not found\<close> when the key is not in the mapping: \<^verbatim>\<open>Item 1\<close>, \<^verbatim>\<open>Item 2\<close> or the
  sentinel, nothing else.
\<close>

theorem ItemService_get_item_total:
  "fst (ItemService_get_item self item_id h) =
     Inr (dict_get (items (objects h self)) item_id ''Item not found'')
   \<and> snd (ItemService_get_item self item_id h) = h
   \<and> fst (bind_call get_item_service (\<lambda>s. ItemService_get_item s item_id) h) =
     Inr (case ItemService_items item_id of Some v \<Rightarrow> v | None \<Rightarrow> ''Item not found'')
   \<and> fst (bind_call get_item_service (\<lambda>s. ItemService_get_item s item_id) h) =
     Inr (if item_id = ''1'' then ''Item 1'' else if item_id = ''2'' then ''Item 2''
          else ''Item not found'')"
  by (simp add: get_item_of_fresh_service dict_get_ItemService_items [symmetric])
     (simp add: ItemService_get_item_def dict_get_def)

text \<open>
  C10. No value of the fixed mapping is the sentinel \<^verbatim>\<open>Item not found\<close>. So the lookup on
  a fresh service returns the sentinel exactly for the strings that are not keys, and
  \<open>read_item_service\<close> raises (the 404) exactly for the strings other than \<^verbatim>\<open>"1"\<close> and
  \<^verbatim>\<open>"2"\<close>.
\<close>

theorem sentinel_not_stored:
  "''Item not found'' \<notin> ran ItemService_items
   \<and> (fst (bind_call get_item_service (\<lambda>s. ItemService_get_item s item_id) h) =
        Inr ''Item not found'' \<longleftrightarrow> item_id \<notin> dom ItemService_items)
   \<and> (fst (call_read_item_service item_id h) = Inl (HTTPException 404 ''Item not found'')
        \<longleftrightarrow> item_id \<notin> {''1'', ''2''})
   \<and> ((\<exists>e. fst (call_read_item_service item_id h) = Inl e) \<longleftrightarrow> item_id \<notin> {''1'', ''2''})"
proof -
  have r: "''Item not found'' \<notin> ran ItemService_items"
    by (auto simp: ran_def ItemService_items_def split: if_splits)
  have g: "fst (bind_call get_item_service (\<lambda>s. ItemService_get_item s item_id) h) =
        Inr ''Item not found'' \<longleftrightarrow> item_id \<notin> dom ItemService_items"
    by (simp add: get_item_of_fresh_service dict_get_ItemService_items)
       (auto simp: ItemService_items_def)
  have c: "fst (call_read_item_service item_id h) = Inl (HTTPException 404 ''Item not found'')
        \<longleftrightarrow> item_id \<notin> {''1'', ''2''}"
    by (simp add: call_read_item_service_fst)
  have e: "(\<exists>e. fst (call_read_item_service item_id h) = Inl e) \<longleftrightarrow> item_id \<notin> {''1'', ''2''}"
    by (simp add: call_read_item_service_fst)
  from r g c e show ?thesis by blast
qed

end
